theory Spec2Isabelle
  imports Main "HOL-Library.Sublist"
begin

section \<open>The data model of src/src/App.tsx\<close>

text \<open>
  \<^verbatim>\<open>Trade\<close> and \<^verbatim>\<open>Session\<close> are imported from \<^verbatim>\<open>./types\<close>, whose declaration is
  not part of the sources. The component reads \<^verbatim>\<open>t.id\<close> of a trade and \<^verbatim>\<open>s.id\<close>,
  \<^verbatim>\<open>s.name\<close>, \<^verbatim>\<open>s.date\<close> and \<^verbatim>\<open>s.trades\<close> of a session; every other field is carried
  along by the object spread \<^verbatim>\<open>{ ...s, trades: ... }\<close>. The records below have the fields
  the component reads, and their extension slot (the \<open>more\<close> part of a record scheme)
  stands for all the fields it never looks at. The field \<^verbatim>\<open>id\<close> is written
  \<open>trade_id\<close> and \<open>session_id\<close>, since \<open>id\<close> is the identity function of HOL.
\<close>

record Trade =
  trade_id :: string

record 'a Session =
  session_id :: string
  name :: string
  date :: string
  trades :: "'a Trade_scheme list"

text \<open>
  The state object \<^verbatim>\<open>{ sessions, activeSessionId }\<close> held by \<^verbatim>\<open>useState(loadState())\<close>;
  \<^verbatim>\<open>activeSessionId\<close> is a string or \<^verbatim>\<open>null\<close>.
\<close>

record ('a, 'b) State =
  sessions :: "('a, 'b) Session_scheme list"
  activeSessionId :: "string option"

text \<open>
  The two state cells of the component that the handlers write: \<^verbatim>\<open>state\<close> and
  \<^verbatim>\<open>selectedTrade\<close>. A handler reads the cells of the current render and calls the
  setters; the model returns the cells after the call.
\<close>

record ('a, 'b) App =
  state :: "('a, 'b) State"
  selectedTrade :: "'a Trade_scheme option"

section \<open>Session and trade handlers\<close>

text \<open>
  \<^verbatim>\<open>const activeSession = state.sessions.find((s) => s.id === state.activeSessionId)\<close>.
  \<^verbatim>\<open>find\<close> returns the first element that satisfies the test, or \<^verbatim>\<open>undefined\<close>;
  a string is never \<^verbatim>\<open>===\<close> to \<^verbatim>\<open>null\<close>.
\<close>

definition activeSession :: "('a, 'b) App \<Rightarrow> ('a, 'b) Session_scheme option" where
  "activeSession app =
     List.find (\<lambda>s. Some (session_id s) = activeSessionId (state app)) (sessions (state app))"

definition handleCreateSession :: "('a, 'b) Session_scheme \<Rightarrow> ('a, 'b) App \<Rightarrow> ('a, 'b) App" where
  "handleCreateSession session app =
     app\<lparr>state := \<lparr>sessions = sessions (state app) @ [session],
                    activeSessionId = Some (session_id session)\<rparr>\<rparr>"

definition handleSelectSession :: "string \<Rightarrow> ('a, 'b) App \<Rightarrow> ('a, 'b) App" where
  "handleSelectSession sessionId app =
     app\<lparr>state := (state app)\<lparr>activeSessionId := Some sessionId\<rparr>,
         selectedTrade := None\<rparr>"

definition handleDeleteSession :: "string \<Rightarrow> ('a, 'b) App \<Rightarrow> ('a, 'b) App" where
  "handleDeleteSession sessionId app =
     (let updatedSessions = filter (\<lambda>s. session_id s \<noteq> sessionId) (sessions (state app));
          newActiveId =
            (if Some sessionId = activeSessionId (state app)
             then (if length updatedSessions > 0
                   then Some (session_id (updatedSessions ! 0)) else None)
             else activeSessionId (state app))
      in app\<lparr>state := \<lparr>sessions = updatedSessions, activeSessionId = newActiveId\<rparr>,
             selectedTrade := None\<rparr>)"

definition handleAddTrade :: "'a Trade_scheme \<Rightarrow> ('a, 'b) App \<Rightarrow> ('a, 'b) App" where
  "handleAddTrade trade app =
     (case activeSession app of
        None \<Rightarrow> app
      | Some active \<Rightarrow>
          (let updatedSessions =
                 map (\<lambda>s. if session_id s = session_id active
                          then s\<lparr>trades := trades s @ [trade]\<rparr>
                          else s)
                   (sessions (state app))
           in app\<lparr>state := (state app)\<lparr>sessions := updatedSessions\<rparr>,
                  selectedTrade := Some trade\<rparr>))"

definition handleUpdateTrade :: "'a Trade_scheme \<Rightarrow> ('a, 'b) App \<Rightarrow> ('a, 'b) App" where
  "handleUpdateTrade updatedTrade app =
     (case activeSession app of
        None \<Rightarrow> app
      | Some active \<Rightarrow>
          (let updatedSessions =
                 map (\<lambda>s. if session_id s = session_id active
                          then s\<lparr>trades :=
                                   map (\<lambda>t. if trade_id t = trade_id updatedTrade
                                            then updatedTrade else t)
                                     (trades s)\<rparr>
                          else s)
                   (sessions (state app))
           in app\<lparr>state := (state app)\<lparr>sessions := updatedSessions\<rparr>,
                  selectedTrade := Some updatedTrade\<rparr>))"

definition handleDeleteTrade :: "string \<Rightarrow> ('a, 'b) App \<Rightarrow> ('a, 'b) App" where
  "handleDeleteTrade tradeId app =
     (case activeSession app of
        None \<Rightarrow> app
      | Some active \<Rightarrow>
          (let updatedSessions =
                 map (\<lambda>s. if session_id s = session_id active
                          then s\<lparr>trades := filter (\<lambda>t. trade_id t \<noteq> tradeId) (trades s)\<rparr>
                          else s)
                   (sessions (state app))
           in app\<lparr>state := (state app)\<lparr>sessions := updatedSessions\<rparr>,
                  selectedTrade := None\<rparr>))"

section \<open>Export and import of JSON backups\<close>

text \<open>
  What \<^verbatim>\<open>JSON.parse\<close> returns: a JSON value as the runtime sees it. An object is the
  list of its own properties in insertion order (\<^verbatim>\<open>JSON.parse\<close> keeps one entry per
  key, so a property is read with \<open>map_of\<close>). The type \<open>'n\<close> stands for the numbers
  (IEEE doubles in the runtime); the handlers never compute with them.
\<close>

datatype 'n json =
    JNull
  | JBool bool
  | JNumber 'n
  | JString string
  | JArray "'n json list"
  | JObject "(string \<times> 'n json) list"

datatype js_error = SyntaxError | TypeError

text \<open>
  What a handler does besides returning: the calls of \<^verbatim>\<open>console.error\<close>, \<^verbatim>\<open>alert\<close>,
  \<^verbatim>\<open>window.confirm\<close> and \<^verbatim>\<open>setState\<close>, and the file offered for download (its name
  and its content), in the order of the calls.
\<close>

datatype 'n effect =
    ConsoleError string js_error
  | Alert string
  | Confirm string
  | SetState "'n json"
  | Download string string

text \<open>
  The content of the \<^verbatim>\<open>state\<close> cell after a handler's effects: \<^verbatim>\<open>setState(v)\<close> replaces
  it by \<open>v\<close>, nothing else touches it.
\<close>

fun state_after :: "'n json \<Rightarrow> 'n effect list \<Rightarrow> 'n json" where
  "state_after c [] = c"
| "state_after c (SetState v # es) = state_after v es"
| "state_after c (e # es) = state_after c es"

text \<open>
  The state object as a runtime value, which is what \<^verbatim>\<open>JSON.stringify(state, null, 2)\<close>
  receives: the properties \<^verbatim>\<open>sessions\<close> and \<^verbatim>\<open>activeSessionId\<close>, in the order in which
  the handlers build the object. The runtime object of a session depends on the fields
  that \<^verbatim>\<open>./types\<close> declares, so it is the parameter \<open>enc\<close>.
\<close>

definition State_json ::
    "(('a, 'b) Session_scheme \<Rightarrow> 'n json) \<Rightarrow> ('a, 'b) State \<Rightarrow> 'n json" where
  "State_json enc st =
     JObject [(''sessions'', JArray (map enc (sessions st))),
              (''activeSessionId'',
                 (case activeSessionId st of None \<Rightarrow> JNull | Some i \<Rightarrow> JString i))]"

text \<open>
  \<^verbatim>\<open>handleExportData\<close>: the backup is \<^verbatim>\<open>JSON.stringify(state, null, 2)\<close>, offered as the
  file \<^verbatim>\<open>trade-tracker-backup-<date>.json\<close>, where the date is
  \<^verbatim>\<open>new Date().toISOString().split('T')[0]\<close>. \<open>JSON_stringify\<close> is the runtime's
  \<^verbatim>\<open>JSON.stringify(_, null, 2)\<close> and \<open>now_iso\<close> the clock's ISO string.
\<close>

definition handleExportData ::
    "('n json \<Rightarrow> string) \<Rightarrow> (('a, 'b) Session_scheme \<Rightarrow> 'n json) \<Rightarrow> string
       \<Rightarrow> ('a, 'b) App \<Rightarrow> 'n effect list" where
  "handleExportData JSON_stringify enc now_iso app =
     (let dataStr = JSON_stringify (State_json enc (state app))
      in [Download (''trade-tracker-backup-'' @ takeWhile (\<lambda>c. c \<noteq> CHR ''T'') now_iso
                      @ ''.json'')
            dataStr])"

text \<open>
  \<^verbatim>\<open>importedData.sessions\<close>: reading a property of \<^verbatim>\<open>null\<close> throws a TypeError; a
  boolean, a number, a string and an array have no property of that name, which reads
  as \<^verbatim>\<open>undefined\<close> (\<open>None\<close>); an object gives its own property, or \<^verbatim>\<open>undefined\<close>.
\<close>

fun get_sessions :: "'n json \<Rightarrow> js_error + 'n json option" where
  "get_sessions JNull = Inl TypeError"
| "get_sessions (JObject props) = Inr (map_of props ''sessions'')"
| "get_sessions v = Inr None"

text \<open>
  \<^verbatim>\<open>!x\<close> is the negation of the truthiness of \<open>x\<close>: \<^verbatim>\<open>undefined\<close>, \<^verbatim>\<open>null\<close>,
  \<^verbatim>\<open>false\<close>, zero and the empty string are falsy, every array and object is truthy.
  (\<^verbatim>\<open>NaN\<close> is falsy too, and \<^verbatim>\<open>JSON.parse\<close> never returns it.)
\<close>

fun truthy :: "('n::zero) json option \<Rightarrow> bool" where
  "truthy None = False"
| "truthy (Some JNull) = False"
| "truthy (Some (JBool b)) = b"
| "truthy (Some (JNumber n)) = (n \<noteq> 0)"
| "truthy (Some (JString s)) = (s \<noteq> [])"
| "truthy (Some (JArray xs)) = True"
| "truthy (Some (JObject props)) = True"

fun isArray :: "'n json option \<Rightarrow> bool" where
  "isArray (Some (JArray xs)) = True"
| "isArray v = False"

text \<open>
  \<^verbatim>\<open>handleImportData\<close>, from the file chosen to the end of \<^verbatim>\<open>reader.onload\<close>. \<open>file\<close> is
  the text of \<^verbatim>\<open>event.target.files?.[0]\<close> (\<open>None\<close> when no file was chosen: the handler
  returns at once), \<open>JSON_parse\<close> is the runtime's \<^verbatim>\<open>JSON.parse\<close> (\<open>None\<close> when it throws
  a SyntaxError), and \<open>confirmed\<close> is what the user answers if \<^verbatim>\<open>window.confirm\<close> asks.
  Everything thrown inside the \<^verbatim>\<open>try\<close> block ends in the \<^verbatim>\<open>catch\<close> block.
\<close>

definition handleImportData ::
    "(string \<Rightarrow> ('n::zero) json option) \<Rightarrow> bool \<Rightarrow> ('a, 'b) App \<Rightarrow> string option
       \<Rightarrow> 'n effect list" where
  "handleImportData JSON_parse confirmed app file =
     (case file of
        None \<Rightarrow> []
      | Some text \<Rightarrow>
          (case JSON_parse text of
             None \<Rightarrow>
               [ConsoleError ''Import error:'' SyntaxError,
                Alert ''Failed to import data. Please check the file format.'']
           | Some importedData \<Rightarrow>
               (case get_sessions importedData of
                  Inl err \<Rightarrow>
                    [ConsoleError ''Import error:'' err,
                     Alert ''Failed to import data. Please check the file format.'']
                | Inr imported_sessions \<Rightarrow>
                    if \<not> truthy imported_sessions \<or> \<not> isArray imported_sessions
                    then [Alert ''Invalid backup file format'']
                    else if length (sessions (state app)) > 0
                    then
                      Confirm (''This will replace all your current data. Are you sure?''
                               @ [CHR 0x0A, CHR 0x0A]
                               @ ''Tip: Export your current data first as a backup!'')
                      # (if \<not> confirmed then []
                         else [SetState importedData, Alert ''Data imported successfully!''])
                    else [SetState importedData, Alert ''Data imported successfully!''])))"

text \<open>
  The structural check in the spec's words: the value has a \<^verbatim>\<open>sessions\<close> field that is an
  array.
\<close>

definition has_sessions_array :: "'n json \<Rightarrow> bool" where
  "has_sessions_array v =
     (case v of
        JObject props \<Rightarrow>
          (case map_of props ''sessions'' of Some (JArray xs) \<Rightarrow> True | _ \<Rightarrow> False)
      | _ \<Rightarrow> False)"

text \<open>The effects that write the state cell, and the dialogs of a trace.\<close>

fun is_SetState :: "'n effect \<Rightarrow> bool" where
  "is_SetState (SetState v) = True"
| "is_SetState e = False"

fun is_Confirm :: "'n effect \<Rightarrow> bool" where
  "is_Confirm (Confirm m) = True"
| "is_Confirm e = False"

fun is_Alert :: "'n effect \<Rightarrow> bool" where
  "is_Alert (Alert m) = True"
| "is_Alert e = False"

text \<open>
  Scanning a trace: \<open>confirm_precedes_overwrite\<close> holds when no \<^verbatim>\<open>setState\<close> comes before
  the first \<^verbatim>\<open>window.confirm\<close>, that is, when every \<^verbatim>\<open>setState\<close> of the trace is
  preceded by a confirmation dialog (lemma \<open>confirm_precedes_overwrite_iff\<close>).
\<close>

fun confirm_precedes_overwrite :: "'n effect list \<Rightarrow> bool" where
  "confirm_precedes_overwrite [] = True"
| "confirm_precedes_overwrite (e # es) =
     (if is_Confirm e then True
      else if is_SetState e then False
      else confirm_precedes_overwrite es)"


section \<open>The state object and its parts as runtime values\<close>

text \<open>
  A trade and a session as the objects that \<^verbatim>\<open>JSON.stringify\<close> walks through: the fields
  the component reads, followed by the object's other properties. Here the extension slot
  of the records is the list of those other properties, each with the JSON value it holds.
  With \<open>Session_object\<close> for the sessions, \<open>State_json\<close> is the whole state object, down
  to every property of every trade.
\<close>

type_synonym 'n props = "(string \<times> 'n json) list"

definition Trade_object :: "'n props Trade_scheme \<Rightarrow> 'n json" where
  "Trade_object t = JObject ((''id'', JString (trade_id t)) # Trade.more t)"

definition Session_object :: "('n props, 'n props) Session_scheme \<Rightarrow> 'n json" where
  "Session_object s =
     JObject ([(''id'', JString (session_id s)), (''name'', JString (name s)),
               (''date'', JString (date s)),
               (''trades'', JArray (map Trade_object (trades s)))]
              @ Session.more s)"

text \<open>
  Reading a state back from a runtime value: the value must be an object with the
  properties above, of the right kinds; whatever follows them in a trade or a session is
  kept as its other properties. These functions are not code of the component: they say
  what it means that a value holds a state, with all its sessions and trades.
\<close>

fun string_property :: "string \<Rightarrow> 'n props \<Rightarrow> (string \<times> 'n props) option" where
  "string_property k ((k', JString s) # rest) = (if k' = k then Some (s, rest) else None)"
| "string_property k props = None"

fun array_property :: "string \<Rightarrow> 'n props \<Rightarrow> ('n json list \<times> 'n props) option" where
  "array_property k ((k', JArray xs) # rest) = (if k' = k then Some (xs, rest) else None)"
| "array_property k props = None"

fun nullable_string_property ::
    "string \<Rightarrow> 'n props \<Rightarrow> (string option \<times> 'n props) option" where
  "nullable_string_property k ((k', JNull) # rest) =
     (if k' = k then Some (None, rest) else None)"
| "nullable_string_property k ((k', JString s) # rest) =
     (if k' = k then Some (Some s, rest) else None)"
| "nullable_string_property k props = None"

definition Trade_of_json :: "'n json \<Rightarrow> 'n props Trade_scheme option" where
  "Trade_of_json v =
     (case v of
        JObject props \<Rightarrow>
          (case string_property ''id'' props of
             None \<Rightarrow> None
           | Some (i, rest) \<Rightarrow> Some \<lparr>trade_id = i, \<dots> = rest\<rparr>)
      | _ \<Rightarrow> None)"

definition Session_of_json :: "'n json \<Rightarrow> ('n props, 'n props) Session_scheme option" where
  "Session_of_json v =
     (case v of
        JObject props \<Rightarrow>
          (case string_property ''id'' props of
             None \<Rightarrow> None
           | Some (i, props1) \<Rightarrow>
          (case string_property ''name'' props1 of
             None \<Rightarrow> None
           | Some (n, props2) \<Rightarrow>
          (case string_property ''date'' props2 of
             None \<Rightarrow> None
           | Some (d, props3) \<Rightarrow>
          (case array_property ''trades'' props3 of
             None \<Rightarrow> None
           | Some (ts, rest) \<Rightarrow>
          (case those (map Trade_of_json ts) of
             None \<Rightarrow> None
           | Some trs \<Rightarrow>
               Some \<lparr>session_id = i, name = n, date = d, trades = trs, \<dots> = rest\<rparr>)))))
      | _ \<Rightarrow> None)"

definition State_of_json :: "'n json \<Rightarrow> ('n props, 'n props) State option" where
  "State_of_json v =
     (case v of
        JObject props \<Rightarrow>
          (case array_property ''sessions'' props of
             None \<Rightarrow> None
           | Some (ss, props1) \<Rightarrow>
          (case nullable_string_property ''activeSessionId'' props1 of
             None \<Rightarrow> None
           | Some (active, rest) \<Rightarrow>
          (case those (map Session_of_json ss) of
             None \<Rightarrow> None
           | Some decoded \<Rightarrow>
               if rest = [] then Some \<lparr>sessions = decoded, activeSessionId = active\<rparr>
               else None)))
      | _ \<Rightarrow> None)"

section \<open>Sample data\<close>

text \<open>
  Concrete trades, sessions and component states on which the theorems below are
  evaluated. In the samples a trade has one more field, its notes (a string), and a
  session has none.
\<close>

definition trade_x :: "string Trade_scheme" where
  "trade_x = \<lparr>trade_id = ''x'', \<dots> = ''long''\<rparr>"

definition trade_x' :: "string Trade_scheme" where
  "trade_x' = \<lparr>trade_id = ''x'', \<dots> = ''short''\<rparr>"

definition trade_y :: "string Trade_scheme" where
  "trade_y = \<lparr>trade_id = ''y'', \<dots> = ''flat''\<rparr>"

definition session_a :: "string Session" where
  "session_a = \<lparr>session_id = ''a'', name = ''Monday'', date = ''06.02.2025'',
                 trades = [trade_x, trade_y]\<rparr>"

definition session_b :: "string Session" where
  "session_b = \<lparr>session_id = ''b'', name = ''Tuesday'', date = ''06.03.2025'',
                 trades = []\<rparr>"

text \<open>A second session with the id of \<open>session_a\<close>.\<close>

definition session_a' :: "string Session" where
  "session_a' = \<lparr>session_id = ''a'', name = ''Wednesday'', date = ''06.04.2025'',
                  trades = [trade_x]\<rparr>"

definition sample_app :: "(string, unit) App" where
  "sample_app = \<lparr>state = \<lparr>sessions = [session_a, session_b], activeSessionId = Some ''a''\<rparr>,
                  selectedTrade = None\<rparr>"

definition twin_app :: "(string, unit) App" where
  "twin_app = \<lparr>state = \<lparr>sessions = [session_a, session_a'], activeSessionId = Some ''a''\<rparr>,
                selectedTrade = None\<rparr>"

text \<open>No session is active: \<^verbatim>\<open>activeSessionId\<close> is \<^verbatim>\<open>null\<close>, or names no session.\<close>

definition idle_app :: "(string, unit) App" where
  "idle_app = \<lparr>state = \<lparr>sessions = [session_a, session_b], activeSessionId = None\<rparr>,
                selectedTrade = None\<rparr>"

definition stale_app :: "(string, unit) App" where
  "stale_app = \<lparr>state = \<lparr>sessions = [session_a, session_b], activeSessionId = Some ''c''\<rparr>,
                 selectedTrade = Some trade_x\<rparr>"

definition empty_app :: "(string, unit) App" where
  "empty_app = \<lparr>state = \<lparr>sessions = [], activeSessionId = None\<rparr>, selectedTrade = None\<rparr>"

text \<open>
  The runtime object of a sample trade and of a sample session, and the texts of four
  files: a backup with no session, the texts \<^verbatim>\<open>[]\<close> and \<^verbatim>\<open>null\<close>, which are JSON and
  no backup, and a text that is not JSON. \<open>sample_parse\<close> is \<^verbatim>\<open>JSON.parse\<close> on those
  texts and on the text \<open>sample_backup\<close>, which stands for the export of \<open>sample_app\<close>;
  \<open>sample_stringify\<close> is its inverse there. They are defined on those texts only (every
  other text is taken as a syntax error) and serve the evaluations, nothing else.
\<close>

definition Trade_json :: "string Trade_scheme \<Rightarrow> int json" where
  "Trade_json t = JObject [(''id'', JString (trade_id t)), (''notes'', JString (Trade.more t))]"

definition Session_json :: "string Session \<Rightarrow> int json" where
  "Session_json s =
     JObject [(''id'', JString (session_id s)), (''name'', JString (name s)),
              (''date'', JString (date s)), (''trades'', JArray (map Trade_json (trades s)))]"

definition no_sessions_text :: string where
  "no_sessions_text = ''{'' @ [CHR 0x22] @ ''sessions'' @ [CHR 0x22] @ '':[]}''"

definition no_sessions_value :: "int json" where
  "no_sessions_value = JObject [(''sessions'', JArray [])]"

definition sample_backup :: string where
  "sample_backup = ''<trade-tracker-backup-2025-06-02.json>''"

definition sample_parse :: "string \<Rightarrow> int json option" where
  "sample_parse text =
     (if text = no_sessions_text then Some no_sessions_value
      else if text = ''[]'' then Some (JArray [])
      else if text = ''null'' then Some JNull
      else if text = sample_backup then Some (State_json Session_json (state sample_app))
      else None)"

definition sample_stringify :: "int json \<Rightarrow> string" where
  "sample_stringify v =
     (if v = State_json Session_json (state sample_app) then sample_backup
      else if v = no_sessions_value then no_sessions_text
      else if v = JArray [] then ''[]''
      else ''null'')"




section \<open>Properties of the session and trade handlers\<close>

text \<open>
  The sample data, unfolded together.
\<close>

lemmas sample_defs =
  trade_x_def trade_x'_def trade_y_def session_a_def session_b_def session_a'_def
  sample_app_def twin_app_def idle_app_def stale_app_def empty_app_def

text \<open>
  \<^verbatim>\<open>activeSession\<close> is \<^verbatim>\<open>undefined\<close> exactly when no session's id equals
  \<^verbatim>\<open>activeSessionId\<close>; when it is defined, it is a session of the list and its id is
  \<^verbatim>\<open>activeSessionId\<close>.
\<close>

lemma activeSession_None_iff:
  "activeSession app = None \<longleftrightarrow>
     (\<forall>s \<in> set (sessions (state app)). Some (session_id s) \<noteq> activeSessionId (state app))"
  by (auto simp add: activeSession_def find_None_iff)

lemma activeSession_SomeD:
  assumes "activeSession app = Some a"
  shows "activeSessionId (state app) = Some (session_id a)" and "a \<in> set (sessions (state app))"
  using assms unfolding activeSession_def
  by (auto simp add: find_Some_iff)

lemma activeSession_exists:
  assumes "\<exists>s \<in> set (sessions (state app)). Some (session_id s) = activeSessionId (state app)"
  obtains a where "activeSession app = Some a"
  using assms activeSession_None_iff [of app] by (cases "activeSession app") auto

lemma count_list_filter: "count_list (filter P xs) x = (if P x then count_list xs x else 0)"
  by (induction xs) auto

text \<open>
  Where the keys of a list are pairwise distinct, a \<^verbatim>\<open>map\<close> that rewrites the elements
  with the key of position \<open>i\<close> rewrites position \<open>i\<close> and nothing else.
\<close>

lemma map_if_single:
  assumes "distinct (map f xs)" and "i < length xs"
  shows "map (\<lambda>s. if f s = f (xs ! i) then g s else s) xs = xs[i := g (xs ! i)]"
proof (rule nth_equalityI)
  show "length (map (\<lambda>s. if f s = f (xs ! i) then g s else s) xs) = length (xs[i := g (xs ! i)])"
    by simp
next
  fix j assume "j < length (map (\<lambda>s. if f s = f (xs ! i) then g s else s) xs)"
  then have j: "j < length xs" by simp
  have "f (xs ! j) = f (xs ! i) \<longleftrightarrow> j = i"
    using assms j by (metis distinct_conv_nth length_map nth_map)
  then show "map (\<lambda>s. if f s = f (xs ! i) then g s else s) xs ! j = xs[i := g (xs ! i)] ! j"
    using j by (auto simp add: nth_list_update)
qed

text \<open>
  With an active session, the three trade handlers map over the sessions and compare
  each id with \<^verbatim>\<open>activeSession.id\<close>, which is \<^verbatim>\<open>activeSessionId\<close>.
\<close>

lemma sessions_handleAddTrade:
  assumes "activeSession app = Some a"
  shows "sessions (state (handleAddTrade t app)) =
    map (\<lambda>s. if Some (session_id s) = activeSessionId (state app)
              then s\<lparr>trades := trades s @ [t]\<rparr> else s) (sessions (state app))"
    and "activeSessionId (state (handleAddTrade t app)) = activeSessionId (state app)"
  using assms activeSession_SomeD(1) [OF assms]
  by (simp_all add: handleAddTrade_def Let_def)

lemma sessions_handleUpdateTrade:
  assumes "activeSession app = Some a"
  shows "sessions (state (handleUpdateTrade u app)) =
    map (\<lambda>s. if Some (session_id s) = activeSessionId (state app)
              then s\<lparr>trades := map (\<lambda>t. if trade_id t = trade_id u then u else t) (trades s)\<rparr>
              else s) (sessions (state app))"
    and "activeSessionId (state (handleUpdateTrade u app)) = activeSessionId (state app)"
  using assms activeSession_SomeD(1) [OF assms]
  by (simp_all add: handleUpdateTrade_def Let_def)

lemma sessions_handleDeleteTrade:
  assumes "activeSession app = Some a"
  shows "sessions (state (handleDeleteTrade tid app)) =
    map (\<lambda>s. if Some (session_id s) = activeSessionId (state app)
              then s\<lparr>trades := filter (\<lambda>t. trade_id t \<noteq> tid) (trades s)\<rparr>
              else s) (sessions (state app))"
    and "activeSessionId (state (handleDeleteTrade tid app)) = activeSessionId (state app)"
  using assms activeSession_SomeD(1) [OF assms]
  by (simp_all add: handleDeleteTrade_def Let_def)

subsection \<open>Creating, selecting and deleting a session\<close>

text \<open>
  C6. For every state and every session, \<^verbatim>\<open>handleCreateSession\<close> produces a state whose
  sessions list is the old list with the new session appended at the end, and whose
  \<^verbatim>\<open>activeSessionId\<close> is the new session's id; no existing session is modified (the
  first \<open>length old\<close> sessions of the new list are the old list).
\<close>

theorem handleCreateSession_appends:
  fixes app :: "('a, 'b) App" and session :: "('a, 'b) Session_scheme"
  defines "old \<equiv> sessions (state app)"
    and "new \<equiv> sessions (state (handleCreateSession session app))"
  shows "new = old @ [session]
    \<and> length new = Suc (length old)
    \<and> take (length old) new = old
    \<and> last new = session
    \<and> activeSessionId (state (handleCreateSession session app)) = Some (session_id session)"
  by (simp add: new_def old_def handleCreateSession_def)

text \<open>
  C6 on the sample state: creating \<open>session_a'\<close> appends it after the two sessions.
\<close>

theorem handleCreateSession_appends_witness:
  "sessions (state (handleCreateSession session_a' sample_app)) = [session_a, session_b, session_a']
   \<and> activeSessionId (state (handleCreateSession session_a' sample_app)) = Some ''a''"
proof -
  note inst = handleCreateSession_appends [of session_a' sample_app]
  have old: "sessions (state sample_app) = [session_a, session_b]"
    by (simp add: sample_app_def)
  have "session_id session_a' = ''a''"
    by (simp add: session_a'_def)
  with inst old show ?thesis by simp
qed

text \<open>
  C8. For every state and every session id, \<^verbatim>\<open>handleSelectSession\<close> sets
  \<^verbatim>\<open>activeSessionId\<close> to the given id and leaves the sessions list (every session and
  every trade within it) unchanged.
\<close>

theorem handleSelectSession_frame:
  "activeSessionId (state (handleSelectSession sessionId app)) = Some sessionId
   \<and> sessions (state (handleSelectSession sessionId app)) = sessions (state app)"
  by (simp add: handleSelectSession_def)

text \<open>
  C8 on the sample state.
\<close>

theorem handleSelectSession_frame_witness:
  "activeSessionId (state (handleSelectSession ''b'' sample_app)) = Some ''b''
   \<and> sessions (state (handleSelectSession ''b'' sample_app)) = [session_a, session_b]"
  using handleSelectSession_frame [of "''b''" sample_app] by (simp add: sample_app_def)

text \<open>
  C7. For every state and every session id, the sessions list after
  \<^verbatim>\<open>handleDeleteSession\<close> is the old list without the sessions whose id equals the given
  id: it is the old list filtered, hence a subsequence of it (the remaining sessions are
  old sessions, unchanged and in their old order), and every session occurs in it as
  often as in the old list unless its id is the given one, in which case it does not occur.
\<close>

theorem handleDeleteSession_removes:
  fixes app :: "('a, 'b) App" and sessionId :: string
  defines "old \<equiv> sessions (state app)"
    and "new \<equiv> sessions (state (handleDeleteSession sessionId app))"
  shows "new = filter (\<lambda>s. session_id s \<noteq> sessionId) old
    \<and> subseq new old
    \<and> (\<forall>s. count_list new s = (if session_id s = sessionId then 0 else count_list old s))"
proof -
  have eq: "new = filter (\<lambda>s. session_id s \<noteq> sessionId) old"
    by (simp add: new_def old_def handleDeleteSession_def Let_def)
  moreover have "subseq new old"
    unfolding eq by (rule subseq_filter_left)
  moreover have "count_list new s = (if session_id s = sessionId then 0 else count_list old s)" for s
    unfolding eq by (simp add: count_list_filter)
  ultimately show ?thesis by blast
qed

text \<open>
  C7 on the samples: deleting \<^verbatim>\<open>b\<close> leaves \<open>session_a\<close>; deleting \<^verbatim>\<open>a\<close> from the
  state with two sessions of that id removes both; deleting an id that no session has
  removes nothing.
\<close>

theorem handleDeleteSession_removes_witness:
  "sessions (state (handleDeleteSession ''b'' sample_app)) = [session_a]
   \<and> sessions (state (handleDeleteSession ''a'' twin_app)) = []
   \<and> sessions (state (handleDeleteSession ''c'' sample_app)) = [session_a, session_b]"
proof -
  have ids: "session_id session_a = ''a''" "session_id session_b = ''b''"
      "session_id session_a' = ''a''"
    by (simp_all add: session_a_def session_b_def session_a'_def)
  have old: "sessions (state sample_app) = [session_a, session_b]"
      "sessions (state twin_app) = [session_a, session_a']"
    by (simp_all add: sample_app_def twin_app_def)
  from handleDeleteSession_removes [of "''b''" sample_app]
    handleDeleteSession_removes [of "''a''" twin_app]
    handleDeleteSession_removes [of "''c''" sample_app]
  show ?thesis by (simp add: old ids)
qed

text \<open>
  C9. For every state, when \<^verbatim>\<open>handleDeleteSession\<close> is given the id of the currently
  active session, the resulting \<^verbatim>\<open>activeSessionId\<close> is the id of the first session
  remaining after the deletion, or \<^verbatim>\<open>null\<close> if no session remains; when given any
  other id, \<^verbatim>\<open>activeSessionId\<close> is unchanged.
\<close>

theorem handleDeleteSession_active:
  fixes app :: "('a, 'b) App" and sessionId :: string
  defines "after \<equiv> state (handleDeleteSession sessionId app)"
  shows "(Some sessionId = activeSessionId (state app) \<longrightarrow>
            activeSessionId after =
              (case sessions after of [] \<Rightarrow> None | s # rest \<Rightarrow> Some (session_id s)))
    \<and> (Some sessionId \<noteq> activeSessionId (state app) \<longrightarrow>
            activeSessionId after = activeSessionId (state app))"
  by (auto simp add: after_def handleDeleteSession_def Let_def split: list.splits)

text \<open>
  C9 on the samples: deleting the active session \<^verbatim>\<open>a\<close> makes \<^verbatim>\<open>b\<close> active;
  deleting it where no session remains gives \<^verbatim>\<open>null\<close>; deleting \<^verbatim>\<open>b\<close> keeps
  \<^verbatim>\<open>a\<close> active.
\<close>

theorem handleDeleteSession_active_witness:
  "Some ''a'' = activeSessionId (state sample_app)
   \<and> activeSessionId (state (handleDeleteSession ''a'' sample_app)) = Some ''b''
   \<and> Some ''a'' = activeSessionId (state twin_app)
   \<and> activeSessionId (state (handleDeleteSession ''a'' twin_app)) = None
   \<and> Some ''b'' \<noteq> activeSessionId (state sample_app)
   \<and> activeSessionId (state (handleDeleteSession ''b'' sample_app)) = Some ''a''"
proof -
  have act: "activeSessionId (state sample_app) = Some ''a''"
      "activeSessionId (state twin_app) = Some ''a''"
    by (simp_all add: sample_app_def twin_app_def)
  have s1: "sessions (state (handleDeleteSession ''a'' sample_app)) = [session_b]"
    by (simp add: handleDeleteSession_def sample_app_def session_a_def session_b_def)
  have s2: "sessions (state (handleDeleteSession ''a'' twin_app)) = []"
    by (simp add: handleDeleteSession_def twin_app_def session_a_def session_a'_def)
  have idb: "session_id session_b = ''b''"
    by (simp add: session_b_def)
  from handleDeleteSession_active [of "''a''" sample_app]
    handleDeleteSession_active [of "''a''" twin_app]
    handleDeleteSession_active [of "''b''" sample_app]
  show ?thesis by (simp add: act s1 s2 idb)
qed

subsection \<open>Adding, updating and deleting a trade\<close>

text \<open>
  C4 as stated fails where two sessions share the active id. In \<open>twin_app\<close> the active
  session (what \<^verbatim>\<open>find\<close> returns) is \<open>session_a\<close>; \<open>session_a'\<close>, at position 1, is
  another session, and \<^verbatim>\<open>handleAddTrade\<close> changes it too, since the \<^verbatim>\<open>map\<close> rewrites
  every session whose id equals \<^verbatim>\<open>activeSession.id\<close>.
\<close>

theorem handleAddTrade_twin_counterexample:
  "activeSession twin_app = Some session_a
   \<and> sessions (state twin_app) ! 1 = session_a'
   \<and> session_a' \<noteq> session_a
   \<and> sessions (state (handleAddTrade trade_y twin_app)) ! 1 \<noteq> sessions (state twin_app) ! 1"
  by (simp add: handleAddTrade_def activeSession_def sample_defs)

text \<open>
  C4, amended. For every state in which an active session exists (some session's id
  equals \<^verbatim>\<open>activeSessionId\<close>), \<^verbatim>\<open>handleAddTrade\<close> keeps the number and the order of the
  sessions, appends the given trade to the end of the trades list of every session whose
  id equals \<^verbatim>\<open>activeSessionId\<close> and changes no other field of such a session, leaves
  every session with another id unchanged, and leaves \<^verbatim>\<open>activeSessionId\<close> unchanged.
  Where the session ids are pairwise distinct, this is the claim as it was stated: the
  trade is appended to the active session, at its position, and every other session is
  unchanged.
\<close>

theorem handleAddTrade_appends:
  fixes app :: "('a, 'b) App" and trade :: "'a Trade_scheme"
  defines "old \<equiv> sessions (state app)"
    and "new \<equiv> sessions (state (handleAddTrade trade app))"
  assumes active: "\<exists>s \<in> set old. Some (session_id s) = activeSessionId (state app)"
  shows "length new = length old
    \<and> (\<forall>i < length old.
          new ! i =
            (if Some (session_id (old ! i)) = activeSessionId (state app)
             then (old ! i)\<lparr>trades := trades (old ! i) @ [trade]\<rparr>
             else old ! i))
    \<and> activeSessionId (state (handleAddTrade trade app)) = activeSessionId (state app)
    \<and> (distinct (map session_id old) \<longrightarrow>
         (\<exists>i < length old.
            activeSession app = Some (old ! i) \<and>
            new = old[i := (old ! i)\<lparr>trades := trades (old ! i) @ [trade]\<rparr>]))"
proof -
  from active obtain a where a: "activeSession app = Some a"
    unfolding old_def by (rule activeSession_exists)
  note eqs = sessions_handleAddTrade [OF a, of trade]
  have id_a: "activeSessionId (state app) = Some (session_id a)"
    using a by (rule activeSession_SomeD)
  have "a \<in> set old"
    unfolding old_def using a by (rule activeSession_SomeD)
  then obtain i where i: "i < length old" "old ! i = a"
    by (auto simp add: in_set_conv_nth)
  have single: "new = old[i := (old ! i)\<lparr>trades := trades (old ! i) @ [trade]\<rparr>]"
    if "distinct (map session_id old)"
    using map_if_single [OF that i(1), of "\<lambda>s. s\<lparr>trades := trades s @ [trade]\<rparr>"] i(2)
    by (simp add: eqs id_a new_def old_def)
  show ?thesis
    using i a single by (auto simp add: eqs new_def old_def)
qed

text \<open>
  C4 on the sample state, whose active session is \<open>session_a\<close>.
\<close>

theorem handleAddTrade_appends_witness:
  "(\<exists>s \<in> set (sessions (state sample_app)).
      Some (session_id s) = activeSessionId (state sample_app))
   \<and> length (sessions (state (handleAddTrade trade_x' sample_app))) = 2
   \<and> sessions (state (handleAddTrade trade_x' sample_app)) ! 0 =
        session_a\<lparr>trades := [trade_x, trade_y, trade_x']\<rparr>
   \<and> sessions (state (handleAddTrade trade_x' sample_app)) ! 1 = session_b
   \<and> activeSessionId (state (handleAddTrade trade_x' sample_app)) = Some ''a''"
proof -
  have h: "\<exists>s \<in> set (sessions (state sample_app)).
      Some (session_id s) = activeSessionId (state sample_app)"
    by (simp add: sample_app_def session_a_def)
  note inst = handleAddTrade_appends [OF h, of trade_x']
  have old: "sessions (state sample_app) = [session_a, session_b]"
    by (simp add: sample_app_def)
  have act: "activeSessionId (state sample_app) = Some ''a''"
    by (simp add: sample_app_def)
  have ids: "session_id session_a = ''a''" "session_id session_b = ''b''"
    by (simp_all add: session_a_def session_b_def)
  have trs: "trades session_a = [trade_x, trade_y]"
    by (simp add: session_a_def)
  from inst have len: "length (sessions (state (handleAddTrade trade_x' sample_app))) = 2"
    by (simp add: old)
  from inst have pw: "\<forall>i < length (sessions (state sample_app)).
          sessions (state (handleAddTrade trade_x' sample_app)) ! i =
            (if Some (session_id (sessions (state sample_app) ! i)) = activeSessionId (state sample_app)
             then (sessions (state sample_app) ! i)\<lparr>trades := trades (sessions (state sample_app) ! i) @ [trade_x']\<rparr>
             else sessions (state sample_app) ! i)"
    by blast
  have e0: "sessions (state (handleAddTrade trade_x' sample_app)) ! 0 =
        session_a\<lparr>trades := [trade_x, trade_y, trade_x']\<rparr>"
    using pw [rule_format, of 0] by (simp add: old act ids trs)
  have e1: "sessions (state (handleAddTrade trade_x' sample_app)) ! 1 = session_b"
    using pw [rule_format, of 1] by (simp add: old act ids)
  from inst have a: "activeSessionId (state (handleAddTrade trade_x' sample_app)) = Some ''a''"
    by (simp add: act)
  show ?thesis
    using h len e0 e1 a by blast
qed

text \<open>
  C5 as stated fails in the same way: in \<open>twin_app\<close> both handlers also change
  \<open>session_a'\<close>, which is not the active session.
\<close>

theorem handleUpdateTrade_handleDeleteTrade_twin_counterexample:
  "activeSession twin_app = Some session_a
   \<and> sessions (state twin_app) ! 1 = session_a'
   \<and> session_a' \<noteq> session_a
   \<and> sessions (state (handleUpdateTrade trade_x' twin_app)) ! 1 \<noteq> sessions (state twin_app) ! 1
   \<and> sessions (state (handleDeleteTrade ''x'' twin_app)) ! 1 \<noteq> sessions (state twin_app) ! 1"
  by (simp add: handleUpdateTrade_def handleDeleteTrade_def activeSession_def sample_defs)

text \<open>
  C5, amended. For every state with an active session, \<^verbatim>\<open>handleUpdateTrade\<close> and
  \<^verbatim>\<open>handleDeleteTrade\<close> keep the number and the order of the sessions and leave every
  session with an id other than \<^verbatim>\<open>activeSessionId\<close>, and \<^verbatim>\<open>activeSessionId\<close> itself,
  unchanged. In every session whose id equals \<^verbatim>\<open>activeSessionId\<close> only the trades list
  changes: \<^verbatim>\<open>handleUpdateTrade\<close> keeps its length and replaces, position by position,
  exactly the trades whose id equals the updated trade's id by the updated trade;
  \<^verbatim>\<open>handleDeleteTrade\<close> removes exactly the trades whose id equals the given id. Where
  the session ids are pairwise distinct, this is the claim as it was stated: only the
  active session changes.
\<close>

theorem handleUpdateTrade_handleDeleteTrade_frame:
  fixes app :: "('a, 'b) App" and updatedTrade :: "'a Trade_scheme" and tradeId :: string
  defines "old \<equiv> sessions (state app)"
    and "upd \<equiv> sessions (state (handleUpdateTrade updatedTrade app))"
    and "del \<equiv> sessions (state (handleDeleteTrade tradeId app))"
  assumes active: "\<exists>s \<in> set old. Some (session_id s) = activeSessionId (state app)"
  shows "length upd = length old \<and> length del = length old
    \<and> (\<forall>i < length old.
          if Some (session_id (old ! i)) = activeSessionId (state app)
          then upd ! i = (old ! i)\<lparr>trades := trades (upd ! i)\<rparr>
             \<and> length (trades (upd ! i)) = length (trades (old ! i))
             \<and> (\<forall>k < length (trades (old ! i)).
                   trades (upd ! i) ! k =
                     (if trade_id (trades (old ! i) ! k) = trade_id updatedTrade
                      then updatedTrade else trades (old ! i) ! k))
             \<and> del ! i = (old ! i)\<lparr>trades := trades (del ! i)\<rparr>
             \<and> trades (del ! i) = filter (\<lambda>t. trade_id t \<noteq> tradeId) (trades (old ! i))
          else upd ! i = old ! i \<and> del ! i = old ! i)
    \<and> activeSessionId (state (handleUpdateTrade updatedTrade app)) = activeSessionId (state app)
    \<and> activeSessionId (state (handleDeleteTrade tradeId app)) = activeSessionId (state app)
    \<and> (distinct (map session_id old) \<longrightarrow>
         (\<exists>i < length old.
            activeSession app = Some (old ! i) \<and>
            upd = old[i := (old ! i)\<lparr>trades :=
                     map (\<lambda>t. if trade_id t = trade_id updatedTrade then updatedTrade else t)
                       (trades (old ! i))\<rparr>] \<and>
            del = old[i := (old ! i)\<lparr>trades :=
                     filter (\<lambda>t. trade_id t \<noteq> tradeId) (trades (old ! i))\<rparr>]))"
proof -
  from active obtain a where a: "activeSession app = Some a"
    unfolding old_def by (rule activeSession_exists)
  note u = sessions_handleUpdateTrade [OF a, of updatedTrade]
  note d = sessions_handleDeleteTrade [OF a, of tradeId]
  have id_a: "activeSessionId (state app) = Some (session_id a)"
    using a by (rule activeSession_SomeD)
  have "a \<in> set old"
    unfolding old_def using a by (rule activeSession_SomeD)
  then obtain i where i: "i < length old" "old ! i = a"
    by (auto simp add: in_set_conv_nth)
  have lens: "length upd = length old \<and> length del = length old"
    by (simp add: u d upd_def del_def old_def)
  have pointwise: "\<forall>i < length old.
          if Some (session_id (old ! i)) = activeSessionId (state app)
          then upd ! i = (old ! i)\<lparr>trades := trades (upd ! i)\<rparr>
             \<and> length (trades (upd ! i)) = length (trades (old ! i))
             \<and> (\<forall>k < length (trades (old ! i)).
                   trades (upd ! i) ! k =
                     (if trade_id (trades (old ! i) ! k) = trade_id updatedTrade
                      then updatedTrade else trades (old ! i) ! k))
             \<and> del ! i = (old ! i)\<lparr>trades := trades (del ! i)\<rparr>
             \<and> trades (del ! i) = filter (\<lambda>t. trade_id t \<noteq> tradeId) (trades (old ! i))
          else upd ! i = old ! i \<and> del ! i = old ! i"
    by (simp add: u d upd_def del_def old_def)
  have ids: "activeSessionId (state (handleUpdateTrade updatedTrade app)) = activeSessionId (state app)
    \<and> activeSessionId (state (handleDeleteTrade tradeId app)) = activeSessionId (state app)"
    by (simp add: u d)
  have single: "activeSession app = Some (old ! i) \<and>
            upd = old[i := (old ! i)\<lparr>trades :=
                     map (\<lambda>t. if trade_id t = trade_id updatedTrade then updatedTrade else t)
                       (trades (old ! i))\<rparr>] \<and>
            del = old[i := (old ! i)\<lparr>trades :=
                     filter (\<lambda>t. trade_id t \<noteq> tradeId) (trades (old ! i))\<rparr>]"
    if dist: "distinct (map session_id old)"
    using map_if_single [OF dist i(1), of "\<lambda>s. s\<lparr>trades :=
                     map (\<lambda>t. if trade_id t = trade_id updatedTrade then updatedTrade else t)
                       (trades s)\<rparr>"]
      map_if_single [OF dist i(1), of "\<lambda>s. s\<lparr>trades :=
                     filter (\<lambda>t. trade_id t \<noteq> tradeId) (trades s)\<rparr>"] i(2) a
    by (simp add: u d id_a upd_def del_def old_def)
  show ?thesis
    using lens pointwise ids single i(1) by blast
qed

text \<open>
  C5 on the sample state: updating with \<open>trade_x'\<close> replaces \<open>trade_x\<close>, deleting
  \<^verbatim>\<open>x\<close> leaves \<open>trade_y\<close>, and \<open>session_b\<close> is as it was.
\<close>

theorem handleUpdateTrade_handleDeleteTrade_frame_witness:
  "(\<exists>s \<in> set (sessions (state sample_app)).
      Some (session_id s) = activeSessionId (state sample_app))
   \<and> length (sessions (state (handleUpdateTrade trade_x' sample_app))) = 2
   \<and> length (sessions (state (handleDeleteTrade ''x'' sample_app))) = 2
   \<and> trades (sessions (state (handleUpdateTrade trade_x' sample_app)) ! 0) = [trade_x', trade_y]
   \<and> trades (sessions (state (handleDeleteTrade ''x'' sample_app)) ! 0) = [trade_y]
   \<and> sessions (state (handleUpdateTrade trade_x' sample_app)) ! 1 = session_b
   \<and> sessions (state (handleDeleteTrade ''x'' sample_app)) ! 1 = session_b
   \<and> activeSessionId (state (handleUpdateTrade trade_x' sample_app)) = Some ''a''
   \<and> activeSessionId (state (handleDeleteTrade ''x'' sample_app)) = Some ''a''"
proof -
  have h: "\<exists>s \<in> set (sessions (state sample_app)).
      Some (session_id s) = activeSessionId (state sample_app)"
    by (simp add: sample_app_def session_a_def)
  note inst = handleUpdateTrade_handleDeleteTrade_frame [OF h, of trade_x' "''x''"]
  have old: "sessions (state sample_app) = [session_a, session_b]"
    by (simp add: sample_app_def)
  have act: "activeSessionId (state sample_app) = Some ''a''"
    by (simp add: sample_app_def)
  have ids: "session_id session_a = ''a''" "session_id session_b = ''b''"
    by (simp_all add: session_a_def session_b_def)
  have trs: "trades session_a = [trade_x, trade_y]"
    by (simp add: session_a_def)
  have tids: "trade_id trade_x = ''x''" "trade_id trade_x' = ''x''" "trade_id trade_y = ''y''"
    by (simp_all add: trade_x_def trade_x'_def trade_y_def)
  from inst have len:
    "length (sessions (state (handleUpdateTrade trade_x' sample_app))) = 2"
    "length (sessions (state (handleDeleteTrade ''x'' sample_app))) = 2"
    by (simp_all add: old)
  from inst have a:
    "activeSessionId (state (handleUpdateTrade trade_x' sample_app)) = Some ''a''"
    "activeSessionId (state (handleDeleteTrade ''x'' sample_app)) = Some ''a''"
    by (simp_all add: act)
  have pw: "if Some (session_id (sessions (state sample_app) ! i)) = activeSessionId (state sample_app)
          then length (trades (sessions (state (handleUpdateTrade trade_x' sample_app)) ! i)) =
                 length (trades (sessions (state sample_app) ! i))
             \<and> (\<forall>k < length (trades (sessions (state sample_app) ! i)).
                   trades (sessions (state (handleUpdateTrade trade_x' sample_app)) ! i) ! k =
                     (if trade_id (trades (sessions (state sample_app) ! i) ! k) = trade_id trade_x'
                      then trade_x' else trades (sessions (state sample_app) ! i) ! k))
             \<and> trades (sessions (state (handleDeleteTrade ''x'' sample_app)) ! i) =
                 filter (\<lambda>t. trade_id t \<noteq> ''x'') (trades (sessions (state sample_app) ! i))
          else sessions (state (handleUpdateTrade trade_x' sample_app)) ! i = sessions (state sample_app) ! i
             \<and> sessions (state (handleDeleteTrade ''x'' sample_app)) ! i = sessions (state sample_app) ! i"
    if "i < length (sessions (state sample_app))" for i
    using inst that by presburger
  have u0: "length (trades (sessions (state (handleUpdateTrade trade_x' sample_app)) ! 0)) = 2"
    and u0k: "\<forall>k < 2. trades (sessions (state (handleUpdateTrade trade_x' sample_app)) ! 0) ! k =
                     (if trade_id ([trade_x, trade_y] ! k) = ''x''
                      then trade_x' else [trade_x, trade_y] ! k)"
    and d0: "trades (sessions (state (handleDeleteTrade ''x'' sample_app)) ! 0) = [trade_y]"
    using pw [of 0] by (simp_all add: old act ids trs tids)
  have u00: "trades (sessions (state (handleUpdateTrade trade_x' sample_app)) ! 0) ! 0 = trade_x'"
    using u0k [rule_format, of 0] by (simp add: tids)
  have u01: "trades (sessions (state (handleUpdateTrade trade_x' sample_app)) ! 0) ! 1 = trade_y"
    using u0k [rule_format, of 1] by (simp add: tids)
  have u0': "trades (sessions (state (handleUpdateTrade trade_x' sample_app)) ! 0) = [trade_x', trade_y]"
  proof (rule nth_equalityI)
    show "length (trades (sessions (state (handleUpdateTrade trade_x' sample_app)) ! 0)) =
      length [trade_x', trade_y]" using u0 by simp
  next
    fix k assume "k < length (trades (sessions (state (handleUpdateTrade trade_x' sample_app)) ! 0))"
    then have "k = 0 \<or> k = 1" using u0 by auto
    then show "trades (sessions (state (handleUpdateTrade trade_x' sample_app)) ! 0) ! k =
      [trade_x', trade_y] ! k" using u00 u01 by auto
  qed
  have e1: "sessions (state (handleUpdateTrade trade_x' sample_app)) ! 1 = session_b"
    "sessions (state (handleDeleteTrade ''x'' sample_app)) ! 1 = session_b"
    using pw [of 1] by (simp_all add: old act ids)
  show ?thesis
    using h len u0' d0 e1 a by blast
qed

text \<open>
  C10. For every state in which no session's id equals \<^verbatim>\<open>activeSessionId\<close> (also when
  \<^verbatim>\<open>activeSessionId\<close> is \<^verbatim>\<open>null\<close>), \<^verbatim>\<open>handleAddTrade\<close>, \<^verbatim>\<open>handleUpdateTrade\<close> and
  \<^verbatim>\<open>handleDeleteTrade\<close> return at once: the state, and the selected trade with it, are
  unchanged.
\<close>

theorem no_active_session_no_change:
  assumes "\<forall>s \<in> set (sessions (state app)). Some (session_id s) \<noteq> activeSessionId (state app)"
  shows "handleAddTrade trade app = app
    \<and> handleUpdateTrade updatedTrade app = app
    \<and> handleDeleteTrade tradeId app = app"
proof -
  have "activeSession app = None"
    using assms by (simp add: activeSession_None_iff)
  then show ?thesis
    by (simp add: handleAddTrade_def handleUpdateTrade_def handleDeleteTrade_def)
qed

text \<open>
  C10 on the samples: \<^verbatim>\<open>activeSessionId\<close> is \<^verbatim>\<open>null\<close> in \<open>idle_app\<close> and names no
  session in \<open>stale_app\<close>.
\<close>

theorem no_active_session_no_change_witness:
  "activeSession idle_app = None
   \<and> handleAddTrade trade_x idle_app = idle_app
   \<and> handleUpdateTrade trade_x' idle_app = idle_app
   \<and> handleDeleteTrade ''x'' idle_app = idle_app
   \<and> activeSession stale_app = None
   \<and> handleAddTrade trade_x stale_app = stale_app
   \<and> handleUpdateTrade trade_x' stale_app = stale_app
   \<and> handleDeleteTrade ''x'' stale_app = stale_app"
proof -
  have h1: "\<forall>s \<in> set (sessions (state idle_app)).
      Some (session_id s) \<noteq> activeSessionId (state idle_app)"
    by (simp add: idle_app_def)
  have h2: "\<forall>s \<in> set (sessions (state stale_app)).
      Some (session_id s) \<noteq> activeSessionId (state stale_app)"
    by (simp add: stale_app_def session_a_def session_b_def)
  from no_active_session_no_change [OF h1, of trade_x trade_x' "''x''"]
    no_active_session_no_change [OF h2, of trade_x trade_x' "''x''"]
  show ?thesis using h1 h2 by (simp add: activeSession_None_iff)
qed

section \<open>Properties of the import and the export\<close>

text \<open>
  The check \<^verbatim>\<open>!importedData.sessions || !Array.isArray(importedData.sessions)\<close> rejects
  exactly the values that have no \<^verbatim>\<open>sessions\<close> field that is an array: every array is
  truthy, so the first test never decides alone.
\<close>

lemma truthy_isArray: "truthy x \<and> isArray x \<longleftrightarrow> isArray x"
  by (cases x rule: isArray.cases) auto

lemma sessions_check_iff:
  "get_sessions v = Inr x \<and> \<not> (\<not> truthy x \<or> \<not> isArray x) \<longleftrightarrow>
     (\<exists>props xs. v = JObject props \<and> map_of props ''sessions'' = Some (JArray xs) \<and> x = Some (JArray xs))"
  by (cases v; cases x rule: isArray.cases) auto

lemma has_sessions_array_iff:
  "has_sessions_array v \<longleftrightarrow> (\<exists>x. get_sessions v = Inr x \<and> truthy x \<and> isArray x)"
  apply (cases v)
  apply (auto simp add: has_sessions_array_def truthy_isArray split: option.splits json.splits)
  done

text \<open>
  A trace without \<^verbatim>\<open>setState\<close> leaves the state cell as it was.
\<close>

lemma state_after_no_SetState:
  "\<not> list_ex is_SetState tr \<Longrightarrow> state_after c tr = c"
  by (induction c tr rule: state_after.induct) auto

text \<open>
  What \<open>confirm_precedes_overwrite\<close> computes: every \<^verbatim>\<open>setState\<close> of the trace has a
  \<^verbatim>\<open>window.confirm\<close> at an earlier position.
\<close>

lemma confirm_precedes_overwrite_iff:
  "confirm_precedes_overwrite tr \<longleftrightarrow>
     (\<forall>i < length tr. is_SetState (tr ! i) \<longrightarrow> (\<exists>j < i. is_Confirm (tr ! j)))"
proof (induction tr)
  case Nil
  then show ?case by simp
next
  case (Cons e es)
  show ?case
  proof (cases "is_Confirm e")
    case True
    then have "\<not> is_SetState e" by (cases e) auto
    with True show ?thesis
      by (auto simp add: nth_Cons' intro!: exI [of _ 0])
  next
    case noc: False
    show ?thesis
    proof (cases "is_SetState e")
      case True
      then show ?thesis using noc by (auto intro!: exI [of _ 0])
    next
      case False
      have "(\<forall>i < length (e # es). is_SetState ((e # es) ! i) \<longrightarrow> (\<exists>j < i. is_Confirm ((e # es) ! j)))
        \<longleftrightarrow> (\<forall>i < length es. is_SetState (es ! i) \<longrightarrow> (\<exists>j < i. is_Confirm (es ! j)))"
        (is "?L \<longleftrightarrow> ?R")
      proof
        assume L: ?L
        show ?R
        proof (intro allI impI)
          fix i assume i: "i < length es" "is_SetState (es ! i)"
          with L [rule_format, of "Suc i"] obtain j where j: "j < Suc i" "is_Confirm ((e # es) ! j)"
            by auto
          with noc have "j \<noteq> 0" by (cases j) auto
          then obtain j' where "j = Suc j'" by (cases j) auto
          with j show "\<exists>j < i. is_Confirm (es ! j)" by auto
        qed
      next
        assume R: ?R
        show ?L
        proof (intro allI impI)
          fix i assume i: "i < length (e # es)" "is_SetState ((e # es) ! i)"
          with False obtain i' where i': "i = Suc i'" by (cases i) auto
          with i R [rule_format, of i'] obtain j where "j < i'" "is_Confirm (es ! j)" by auto
          then have "Suc j < i \<and> is_Confirm ((e # es) ! Suc j)" using i' by simp
          then show "\<exists>j < i. is_Confirm ((e # es) ! j)" by blast
        qed
      qed
      with noc False Cons.IH show ?thesis by simp
    qed
  qed
qed

text \<open>
  The six ways through \<^verbatim>\<open>reader.onload\<close>, each with its trace.
\<close>

lemma handleImportData_cases:
  fixes JSON_parse :: "string \<Rightarrow> ('n::zero) json option"
    and confirmed :: bool and app :: "('a, 'b) App" and file_text :: string
  defines "tr \<equiv> handleImportData JSON_parse confirmed app (Some file_text)"
  shows "(JSON_parse file_text = None \<and>
            tr = [ConsoleError ''Import error:'' SyntaxError,
                  Alert ''Failed to import data. Please check the file format.''])
       \<or> (JSON_parse file_text = Some JNull \<and>
            tr = [ConsoleError ''Import error:'' TypeError,
                  Alert ''Failed to import data. Please check the file format.''])
       \<or> (\<exists>v. JSON_parse file_text = Some v \<and> v \<noteq> JNull \<and> \<not> has_sessions_array v \<and>
            tr = [Alert ''Invalid backup file format''])
       \<or> (\<exists>v m. JSON_parse file_text = Some v \<and> has_sessions_array v \<and> sessions (state app) \<noteq> [] \<and>
            \<not> confirmed \<and> tr = [Confirm m])
       \<or> (\<exists>v m. JSON_parse file_text = Some v \<and> has_sessions_array v \<and> sessions (state app) \<noteq> [] \<and>
            confirmed \<and> tr = [Confirm m, SetState v, Alert ''Data imported successfully!''])
       \<or> (\<exists>v. JSON_parse file_text = Some v \<and> has_sessions_array v \<and> sessions (state app) = [] \<and>
            tr = [SetState v, Alert ''Data imported successfully!''])"
proof (cases "JSON_parse file_text")
  case None
  then show ?thesis by (simp add: tr_def handleImportData_def)
next
  case (Some v)
  show ?thesis
  proof (cases "get_sessions v")
    case (Inl err)
    then have "v = JNull" "err = TypeError" by (cases v; simp)+
    with Some show ?thesis by (simp add: tr_def handleImportData_def)
  next
    case (Inr x)
    then have nn: "v \<noteq> JNull" by auto
    have hs: "has_sessions_array v \<longleftrightarrow> truthy x \<and> isArray x"
      using Inr by (simp add: has_sessions_array_iff)
    show ?thesis
      using Some Inr nn hs by (auto simp add: tr_def handleImportData_def)
  qed
qed


lemma State_json_inj:
  assumes "inj enc" and "State_json enc st = State_json enc st'"
  shows "st = st'"
proof -
  from assms(2) have "map enc (sessions st) = map enc (sessions st')"
    and "activeSessionId st = activeSessionId st'"
    by (auto simp add: State_json_def split: option.splits)
  with assms(1) show ?thesis
    by (simp add: inj_map_eq_map)
qed

text \<open>
  The samples, evaluated.
\<close>

lemma sample_parse_simps:
  "sample_parse no_sessions_text = Some no_sessions_value"
  "sample_parse ''[]'' = Some (JArray [])"
  "sample_parse ''null'' = Some JNull"
  "sample_parse ''{'' = None"
  "sample_parse sample_backup = Some (State_json Session_json (state sample_app))"
  by (simp_all add: sample_parse_def no_sessions_text_def sample_backup_def)

lemma sample_sessions:
  "sessions (state sample_app) = [session_a, session_b]"
  "sessions (state empty_app) = []"
  by (simp_all add: sample_app_def empty_app_def)

lemma has_sessions_array_samples:
  "has_sessions_array no_sessions_value"
  "\<not> has_sessions_array (JArray [])"
  "\<not> has_sessions_array JNull"
  by (simp_all add: has_sessions_array_def no_sessions_value_def)

lemma handleImportData_samples:
  "handleImportData sample_parse b empty_app (Some no_sessions_text) =
     [SetState no_sessions_value, Alert ''Data imported successfully!'']"
  "handleImportData sample_parse True sample_app (Some no_sessions_text) =
     [Confirm (''This will replace all your current data. Are you sure?''
               @ [CHR 0x0A, CHR 0x0A]
               @ ''Tip: Export your current data first as a backup!''),
      SetState no_sessions_value, Alert ''Data imported successfully!'']"
  "handleImportData sample_parse False sample_app (Some no_sessions_text) =
     [Confirm (''This will replace all your current data. Are you sure?''
               @ [CHR 0x0A, CHR 0x0A]
               @ ''Tip: Export your current data first as a backup!'')]"
  "handleImportData sample_parse b sample_app (Some ''{'') =
     [ConsoleError ''Import error:'' SyntaxError,
      Alert ''Failed to import data. Please check the file format.'']"
  "handleImportData sample_parse b sample_app (Some ''null'') =
     [ConsoleError ''Import error:'' TypeError,
      Alert ''Failed to import data. Please check the file format.'']"
  "handleImportData sample_parse b sample_app (Some ''[]'') =
     [Alert ''Invalid backup file format'']"
  by (simp_all add: handleImportData_def sample_parse_simps sample_sessions no_sessions_value_def)

text \<open>
  C1. For every imported file, \<^verbatim>\<open>handleImportData\<close> calls \<^verbatim>\<open>setState\<close> with a value only
  if the file parses as JSON to that value and the value has a \<^verbatim>\<open>sessions\<close> field that
  is an array; and if parsing throws or the parsed value fails the structural check, an
  alert is shown and the state is unchanged (whatever the state was).
\<close>

theorem handleImportData_guard:
  fixes JSON_parse :: "string \<Rightarrow> ('n::zero) json option"
    and confirmed :: bool and app :: "('a, 'b) App" and file_text :: string
  defines "tr \<equiv> handleImportData JSON_parse confirmed app (Some file_text)"
  shows "(\<forall>v. SetState v \<in> set tr \<longrightarrow> JSON_parse file_text = Some v \<and> has_sessions_array v)
    \<and> (JSON_parse file_text = None
         \<or> (\<exists>v. JSON_parse file_text = Some v \<and> \<not> has_sessions_array v)
       \<longrightarrow> (\<exists>m. Alert m \<in> set tr) \<and> (\<forall>c. state_after c tr = c))"
  using handleImportData_cases [of JSON_parse file_text confirmed app]
  unfolding tr_def by (elim disjE exE conjE) auto

text \<open>
  C1 on three files read into the sample state: a valid backup, whose value replaces the
  state; a text that is not JSON; and the JSON text \<^verbatim>\<open>[]\<close>, which has no \<^verbatim>\<open>sessions\<close>.
\<close>

theorem handleImportData_guard_witness:
  "SetState no_sessions_value
      \<in> set (handleImportData sample_parse True sample_app (Some no_sessions_text))
   \<and> sample_parse no_sessions_text = Some no_sessions_value
   \<and> has_sessions_array no_sessions_value
   \<and> sample_parse ''{'' = None
   \<and> (\<exists>m. Alert m \<in> set (handleImportData sample_parse True sample_app (Some ''{'')))
   \<and> state_after (State_json Session_json (state sample_app))
        (handleImportData sample_parse True sample_app (Some ''{''))
      = State_json Session_json (state sample_app)
   \<and> sample_parse ''[]'' = Some (JArray [])
   \<and> \<not> has_sessions_array (JArray [])
   \<and> (\<exists>m. Alert m \<in> set (handleImportData sample_parse True sample_app (Some ''[]'')))
   \<and> state_after (State_json Session_json (state sample_app))
        (handleImportData sample_parse True sample_app (Some ''[]''))
      = State_json Session_json (state sample_app)"
proof -
  have set1: "SetState no_sessions_value
      \<in> set (handleImportData sample_parse True sample_app (Some no_sessions_text))"
    by (simp add: handleImportData_samples)
  have p2: "sample_parse ''{'' = None"
    by (rule sample_parse_simps)
  have p3: "sample_parse ''[]'' = Some (JArray []) \<and> \<not> has_sessions_array (JArray [])"
    by (simp add: sample_parse_simps has_sessions_array_samples)
  note g1 = handleImportData_guard [where JSON_parse = sample_parse and confirmed = True
      and app = sample_app and file_text = no_sessions_text]
  note g2 = handleImportData_guard [where JSON_parse = sample_parse and confirmed = True
      and app = sample_app and file_text = "''{''"]
  note g3 = handleImportData_guard [where JSON_parse = sample_parse and confirmed = True
      and app = sample_app and file_text = "''[]''"]
  from g1 set1 have "sample_parse no_sessions_text = Some no_sessions_value
      \<and> has_sessions_array no_sessions_value"
    by blast
  moreover from g2 p2 have "(\<exists>m. Alert m \<in> set (handleImportData sample_parse True sample_app (Some ''{'')))
      \<and> (\<forall>c. state_after c (handleImportData sample_parse True sample_app (Some ''{'')) = c)"
    by blast
  moreover from g3 p3 have "(\<exists>m. Alert m \<in> set (handleImportData sample_parse True sample_app (Some ''[]'')))
      \<and> (\<forall>c. state_after c (handleImportData sample_parse True sample_app (Some ''[]'')) = c)"
    by blast
  ultimately show ?thesis
    using set1 p2 p3 by blast
qed

text \<open>
  C2 as stated fails where the current state has no session: the guard
  \<^verbatim>\<open>state.sessions.length > 0\<close> skips \<^verbatim>\<open>window.confirm\<close>, and a valid backup replaces the
  state with no dialog before it (here the state object loses its \<^verbatim>\<open>activeSessionId\<close>
  property, which the backup does not have).
\<close>

theorem handleImportData_unconfirmed_counterexample:
  "sessions (state empty_app) = []
   \<and> handleImportData sample_parse False empty_app (Some no_sessions_text) =
       [SetState no_sessions_value, Alert ''Data imported successfully!'']
   \<and> \<not> confirm_precedes_overwrite
         (handleImportData sample_parse False empty_app (Some no_sessions_text))
   \<and> state_after (State_json Session_json (state empty_app))
        (handleImportData sample_parse False empty_app (Some no_sessions_text))
      \<noteq> State_json Session_json (state empty_app)"
  by (simp add: handleImportData_samples sample_sessions State_json_def no_sessions_value_def)

text \<open>
  C2, amended. Every import into a state that holds at least one session is preceded by
  a confirmation dialog whenever it overwrites the state, and if the user declines a
  confirmation dialog, the state is unchanged. Where the current state holds no session,
  the import shows no confirmation dialog: a valid backup replaces the state at once.
\<close>

theorem handleImportData_confirmation:
  fixes JSON_parse :: "string \<Rightarrow> ('n::zero) json option"
    and confirmed :: bool and app :: "('a, 'b) App" and file_text :: string
  defines "tr \<equiv> handleImportData JSON_parse confirmed app (Some file_text)"
  shows "(sessions (state app) \<noteq> [] \<longrightarrow> confirm_precedes_overwrite tr)
    \<and> (list_ex is_Confirm tr \<and> \<not> confirmed \<longrightarrow> (\<forall>c. state_after c tr = c))
    \<and> (sessions (state app) = [] \<longrightarrow> \<not> list_ex is_Confirm tr)
    \<and> (\<forall>v. sessions (state app) = [] \<and> JSON_parse file_text = Some v \<and> has_sessions_array v
           \<longrightarrow> tr = [SetState v, Alert ''Data imported successfully!''])"
  using handleImportData_cases [of JSON_parse file_text confirmed app]
  unfolding tr_def by (elim disjE exE conjE) (auto simp add: has_sessions_array_def)

text \<open>
  C2, amended, on the samples: the import into \<open>sample_app\<close> asks before it overwrites,
  a declined import leaves the state as it was, and the import into \<open>empty_app\<close> does
  not ask.
\<close>

theorem handleImportData_confirmation_witness:
  "sessions (state sample_app) \<noteq> []
   \<and> list_ex is_SetState (handleImportData sample_parse True sample_app (Some no_sessions_text))
   \<and> confirm_precedes_overwrite
        (handleImportData sample_parse True sample_app (Some no_sessions_text))
   \<and> list_ex is_Confirm (handleImportData sample_parse False sample_app (Some no_sessions_text))
   \<and> state_after (State_json Session_json (state sample_app))
        (handleImportData sample_parse False sample_app (Some no_sessions_text))
      = State_json Session_json (state sample_app)
   \<and> sessions (state empty_app) = []
   \<and> \<not> list_ex is_Confirm (handleImportData sample_parse True empty_app (Some no_sessions_text))"
proof -
  have ne: "sessions (state sample_app) \<noteq> []" and em: "sessions (state empty_app) = []"
    by (simp_all add: sample_sessions)
  have ov: "list_ex is_SetState
      (handleImportData sample_parse True sample_app (Some no_sessions_text))"
    and asked: "list_ex is_Confirm
      (handleImportData sample_parse False sample_app (Some no_sessions_text))"
    by (simp_all add: handleImportData_samples)
  from handleImportData_confirmation [where JSON_parse = sample_parse and confirmed = True
      and app = sample_app and file_text = no_sessions_text] ne
  have "confirm_precedes_overwrite
      (handleImportData sample_parse True sample_app (Some no_sessions_text))"
    by blast
  moreover
  from handleImportData_confirmation [where JSON_parse = sample_parse and confirmed = False
      and app = sample_app and file_text = no_sessions_text] asked
  have "\<forall>c. state_after c
      (handleImportData sample_parse False sample_app (Some no_sessions_text)) = c"
    by blast
  moreover
  from handleImportData_confirmation [where JSON_parse = sample_parse and confirmed = True
      and app = empty_app and file_text = no_sessions_text] em
  have "\<not> list_ex is_Confirm
      (handleImportData sample_parse True empty_app (Some no_sessions_text))"
    by blast
  ultimately show ?thesis
    using ne em ov asked by blast
qed

text \<open>
  Reading back what was written: an encoded trade, session and state decode to
  themselves, so the runtime value of a state determines the state.
\<close>

lemma those_map_Some:
  assumes "\<And>x. x \<in> set xs \<Longrightarrow> f (g x) = Some x"
  shows "those (map (f \<circ> g) xs) = Some xs"
  using assms by (induction xs) simp_all

lemma Trade_of_json_Trade_object: "Trade_of_json (Trade_object t) = Some t"
  by (simp add: Trade_of_json_def Trade_object_def)

lemma Session_of_json_Session_object: "Session_of_json (Session_object s) = Some s"
  by (simp add: Session_of_json_def Session_object_def those_map_Some Trade_of_json_Trade_object)

lemma State_of_json_State_json: "State_of_json (State_json Session_object st) = Some st"
  by (cases "activeSessionId st")
     (simp_all add: State_of_json_def State_json_def those_map_Some Session_of_json_Session_object)

lemma State_json_Session_object_inj:
  "State_json Session_object st = State_json Session_object st' \<Longrightarrow> st = st'"
  by (metis State_of_json_State_json option.inject)



text \<open>
  The export of the sample state on 2 June 2025.
\<close>

lemma handleExportData_sample:
  "handleExportData sample_stringify Session_json ''2025-06-02T14:30:00.000Z'' sample_app =
     [Download ''trade-tracker-backup-2025-06-02.json'' sample_backup]"
  by (simp add: handleExportData_def sample_stringify_def)



end
